theory Spec2Isabelle
  imports Main "HOL-Library.Word" "HOL-Library.List_Lexorder" "HOL-Library.Char_ord"
    "HOL-Library.Multiset"
begin

unbundle bit_operations_syntax

section \<open>Machine types of the Go program\<close>

text \<open>
  The program is read as compiled for linux/amd64: \<open>int\<close> and \<open>int64\<close> are 64-bit
  two's-complement words (signed reading by \<open>sint\<close>), \<open>os.FileMode\<close> is a 32-bit word.
  A byte slice is a list of bytes; its length is a \<open>nat\<close>.  \<open>time.Now()\<close> is an input
  of every operation that reads the clock.
\<close>

type_synonym byte = "8 word"
type_synonym int64 = "64 word"
type_synonym go_int = "64 word"
type_synonym FileMode = "32 word"
type_synonym time = nat

subsection \<open>Constants of package os (linux)\<close>

definition O_RDONLY :: go_int where "O_RDONLY = 0"
definition O_WRONLY :: go_int where "O_WRONLY = 1"
definition O_RDWR :: go_int where "O_RDWR = 2"
definition O_CREATE :: go_int where "O_CREATE = 0x40"
definition O_EXCL :: go_int where "O_EXCL = 0x80"
definition O_TRUNC :: go_int where "O_TRUNC = 0x200"
definition O_APPEND :: go_int where "O_APPEND = 0x400"

definition ModeDir :: FileMode where "ModeDir = 0x80000000"
definition ModeSymlink :: FileMode where "ModeSymlink = 0x8000000"

text \<open>\<open>os.ModePerm\<close>, octal 0777.\<close>

definition ModePerm :: FileMode where "ModePerm = 0x1FF"

definition IsDir :: "FileMode \<Rightarrow> bool" where
  "IsDir m \<longleftrightarrow> m AND ModeDir \<noteq> 0"

text \<open>\<open>io.SeekStart\<close>, \<open>io.SeekCurrent\<close>, \<open>io.SeekEnd\<close>.\<close>

definition SeekStart :: go_int where "SeekStart = 0"
definition SeekCurrent :: go_int where "SeekCurrent = 1"
definition SeekEnd :: go_int where "SeekEnd = 2"

subsection \<open>Errors\<close>

datatype error =
    ErrClosed
  | ErrNotExist
  | ErrExist
  | EOF
  | ErrShortWrite
  | ReadNotSupported
  | WriteNotSupported
  | CannotOpenDirectory string
  | ENOENT
  | NotASymlink
  | NegativeOffset
  | PathError string string error

text \<open>\<open>os.IsNotExist\<close>: the error, or the error a \<open>PathError\<close> wraps, is
  \<open>ErrNotExist\<close> or \<open>ENOENT\<close>.\<close>

fun IsNotExist :: "error \<Rightarrow> bool" where
  "IsNotExist ErrNotExist = True"
| "IsNotExist ENOENT = True"
| "IsNotExist (PathError opn p e) = (e = ErrNotExist \<or> e = ENOENT)"
| "IsNotExist _ = False"

section \<open>memfs: flag predicates (memfs.go, lines 384-414)\<close>

definition isCreate :: "go_int \<Rightarrow> bool" where
  "isCreate flag \<longleftrightarrow> flag AND O_CREATE \<noteq> 0"

definition isExclusive :: "go_int \<Rightarrow> bool" where
  "isExclusive flag \<longleftrightarrow> flag AND O_EXCL \<noteq> 0"

definition isAppend :: "go_int \<Rightarrow> bool" where
  "isAppend flag \<longleftrightarrow> flag AND O_APPEND \<noteq> 0"

definition isTruncate :: "go_int \<Rightarrow> bool" where
  "isTruncate flag \<longleftrightarrow> flag AND O_TRUNC \<noteq> 0"

definition isReadAndWrite :: "go_int \<Rightarrow> bool" where
  "isReadAndWrite flag \<longleftrightarrow> flag AND O_RDWR \<noteq> 0"

definition isReadOnly :: "go_int \<Rightarrow> bool" where
  "isReadOnly flag \<longleftrightarrow> flag = O_RDONLY"

definition isWriteOnly :: "go_int \<Rightarrow> bool" where
  "isWriteOnly flag \<longleftrightarrow> flag AND O_WRONLY \<noteq> 0"

definition isSymlink :: "FileMode \<Rightarrow> bool" where
  "isSymlink m \<longleftrightarrow> m AND ModeSymlink \<noteq> 0"

section \<open>memfs: the content buffer\<close>

text \<open>
  A \<open>*content\<close> is an address in a store of byte slices; every handle and entry that
  points to the same \<open>content\<close> holds the same address.
\<close>

type_synonym heap = "nat \<Rightarrow> byte list"

text \<open>\<open>content.Len\<close> and \<open>content.Truncate\<close> (memfs.go, lines 376-382).\<close>

definition content_Len :: "heap \<Rightarrow> nat \<Rightarrow> nat" where
  "content_Len h c = length (h c)"

definition content_Truncate :: "heap \<Rightarrow> nat \<Rightarrow> heap" where
  "content_Truncate h c = h(c := [])"

text \<open>
  Modelled from the spec: \<open>content.ReadAt\<close> is not among the source files.  Spec 4.1:
  "copies available bytes from offset; if offset \<ge> Len() returns zero bytes with an
  end-of-data signal; never errors for in-range reads"; spec 4.2 adds that the
  end-of-data signal can come together with bytes (a read that stops at the end of the
  buffer before the destination is full).  The destination \<open>b\<close> keeps its length; its
  first \<open>n\<close> bytes are overwritten.  The spec only says that a negative position
  "manifests on the next read/write": the model reports it as an error with nothing
  read.
\<close>

definition content_ReadAt ::
  "byte list \<Rightarrow> byte list \<Rightarrow> int64 \<Rightarrow> byte list \<times> nat \<times> error option" where
  "content_ReadAt bs b off =
     (if sint off < 0 then (b, 0, Some NegativeOffset)
      else if int (length bs) \<le> sint off then (b, 0, Some EOF)
      else
        let btr = take (length b) (drop (nat (sint off)) bs);
            n = length btr
        in (btr @ drop n b, n, if n < length b then Some EOF else None))"

text \<open>
  Modelled from the spec: \<open>content.WriteAt\<close> is not among the source files.  Spec 4.1:
  "grows the buffer if offset + len(buf) > Len(), zero-filling any gap between the old
  end and offset before writing; always succeeds (no capacity limit) and returns bytes
  written".  A negative offset is reported as an error with nothing written, as for
  \<open>content_ReadAt\<close>.
\<close>

definition content_WriteAt ::
  "byte list \<Rightarrow> byte list \<Rightarrow> int64 \<Rightarrow> byte list \<times> nat \<times> error option" where
  "content_WriteAt bs p off =
     (if sint off < 0 then (bs, 0, Some NegativeOffset)
      else
        let k = nat (sint off);
            padded = bs @ replicate (k - length bs) 0
        in (take k padded @ p @ drop (k + length p) bs, length p, None))"

section \<open>memfs: the handle (type file of memfs.go, lines 209-343, here \<open>file_t\<close>)\<close>

record file_t =
  name :: string
  content :: nat
  position :: int64
  flag :: go_int
  mode :: FileMode
  mtime :: time
  isClosed :: bool

text \<open>\<open>file.ReadAt\<close>: returns the destination, the count and the error.\<close>

definition ReadAt ::
  "heap \<Rightarrow> file_t \<Rightarrow> byte list \<Rightarrow> int64 \<Rightarrow> byte list \<times> nat \<times> error option" where
  "ReadAt h f b off =
     (if isClosed f then (b, 0, Some ErrClosed)
      else if \<not> isReadAndWrite (flag f) \<and> \<not> isReadOnly (flag f)
        then (b, 0, Some ReadNotSupported)
      else content_ReadAt (h (content f)) b off)"

text \<open>\<open>file.Read\<close>: the position moves by the count; an \<open>EOF\<close> that comes with bytes is
  dropped.\<close>

definition Read ::
  "heap \<Rightarrow> file_t \<Rightarrow> byte list \<Rightarrow> file_t \<times> byte list \<times> nat \<times> error option" where
  "Read h f b =
     (case ReadAt h f b (position f) of
        (b', n, err) \<Rightarrow>
          (f\<lparr>position := position f + of_nat n\<rparr>, b', n,
           if err = Some EOF \<and> n \<noteq> 0 then None else err))"

text \<open>\<open>file.Seek\<close>: a \<open>whence\<close> outside the three cases leaves the position as it is.\<close>

definition Seek ::
  "heap \<Rightarrow> file_t \<Rightarrow> int64 \<Rightarrow> go_int \<Rightarrow> file_t \<times> int64 \<times> error option" where
  "Seek h f offset whence =
     (if isClosed f then (f, 0, Some ErrClosed)
      else
        let f' =
          (if whence = SeekCurrent then f\<lparr>position := position f + offset\<rparr>
           else if whence = SeekStart then f\<lparr>position := offset\<rparr>
           else if whence = SeekEnd
             then f\<lparr>position := of_nat (content_Len h (content f)) + offset\<rparr>
           else f)
        in (f', position f', None))"

text \<open>\<open>file.WriteAt\<close>: the position and the mtime are set whatever the buffer's write
  returned.\<close>

definition WriteAt ::
  "time \<Rightarrow> heap \<Rightarrow> file_t \<Rightarrow> byte list \<Rightarrow> int64 \<Rightarrow> heap \<times> file_t \<times> nat \<times> error option" where
  "WriteAt now h f p off =
     (if isClosed f then (h, f, 0, Some ErrClosed)
      else if \<not> isReadAndWrite (flag f) \<and> \<not> isWriteOnly (flag f)
        then (h, f, 0, Some WriteNotSupported)
      else
        (case content_WriteAt (h (content f)) p off of
           (bs', n, err) \<Rightarrow>
             (h(content f := bs'),
              f\<lparr>position := off + of_nat n, mtime := now\<rparr>, n, err)))"

definition Write ::
  "time \<Rightarrow> heap \<Rightarrow> file_t \<Rightarrow> byte list \<Rightarrow> heap \<times> file_t \<times> nat \<times> error option" where
  "Write now h f p = WriteAt now h f p (position f)"

definition Close :: "file_t \<Rightarrow> file_t \<times> error option" where
  "Close f = (if isClosed f then (f, Some ErrClosed) else (f\<lparr>isClosed := True\<rparr>, None))"

text \<open>
  \<open>file.Truncate\<close>.  The slice expression \<open>bytes[:size]\<close> of the first branch panics
  for a negative \<open>size\<close> (every negative size is below the length): \<open>None\<close> is the
  panic.  \<open>append\<close> copies the zero bytes of the fresh slice behind the old ones.
\<close>

definition Truncate ::
  "time \<Rightarrow> heap \<Rightarrow> file_t \<Rightarrow> int64 \<Rightarrow> (heap \<times> file_t \<times> error option) option" where
  "Truncate now h f sz =
     (let bs = h (content f) in
      if sint sz < int (length bs) then
        (if sint sz < 0 then None
         else Some (h(content f := take (nat (sint sz)) bs), f\<lparr>mtime := now\<rparr>, None))
      else
        let more = sint sz - int (length bs) in
        if more > 0
          then Some (h(content f := bs @ replicate (nat more) 0), f\<lparr>mtime := now\<rparr>, None)
          else Some (h, f\<lparr>mtime := now\<rparr>, None))"

text \<open>\<open>file.Duplicate\<close>: a new handle on the same buffer.\<close>

definition Duplicate ::
  "time \<Rightarrow> heap \<Rightarrow> file_t \<Rightarrow> string \<Rightarrow> FileMode \<Rightarrow> go_int \<Rightarrow> heap \<times> file_t" where
  "Duplicate now h f filename md flg =
     (let new = \<lparr>name = filename, content = content f, position = 0, flag = flg,
                 mode = md, mtime = now, isClosed = False\<rparr>;
          h' = (if isTruncate flg then content_Truncate h (content new) else h);
          new' = (if isAppend flg
                  then new\<lparr>position := of_nat (content_Len h' (content new))\<rparr> else new)
      in (h', new'))"

text \<open>\<open>file.Stat\<close> and the \<open>fileInfo\<close> it returns (memfs.go, lines 326-374).\<close>

record fileInfo =
  fi_name :: string
  fi_size :: nat
  fi_mode :: FileMode
  fi_mtime :: time

definition file_Stat :: "heap \<Rightarrow> file_t \<Rightarrow> fileInfo" where
  "file_Stat h f =
     \<lparr>fi_name = name f, fi_size = content_Len h (content f), fi_mode = mode f,
      fi_mtime = mtime f\<rparr>"

section \<open>Package path/filepath on Unix\<close>

text \<open>
  The lexical path functions of Go's standard library that memfs.go calls, after their
  documentation: \<open>Clean\<close> drops empty and \<open>.\<close> elements, resolves inner \<open>..\<close>
  elements, drops \<open>..\<close> at the root, and returns \<open>.\<close> for an empty result;
  \<open>Join\<close> ignores leading empty elements and cleans the result; \<open>Dir\<close> cleans what
  stands before the last element; \<open>Base\<close> is the last element, after trailing
  separators are removed.
\<close>

fun split_sep :: "string \<Rightarrow> string list" where
  "split_sep [] = [[]]"
| "split_sep (c # cs) =
     (if c = CHR ''/'' then [] # split_sep cs
      else (case split_sep cs of [] \<Rightarrow> [[c]] | w # ws \<Rightarrow> (c # w) # ws))"

fun join_sep :: "string list \<Rightarrow> string" where
  "join_sep [] = []"
| "join_sep [x] = x"
| "join_sep (x # y # ys) = x @ CHR ''/'' # join_sep (y # ys)"

text \<open>The elements kept so far are held in reverse.\<close>

fun clean_elems :: "bool \<Rightarrow> string list \<Rightarrow> string list \<Rightarrow> string list" where
  "clean_elems rooted st [] = rev st"
| "clean_elems rooted st (c # cs) =
     (if c = [] \<or> c = ''.'' then clean_elems rooted st cs
      else if c = ''..'' then
        (case st of
           [] \<Rightarrow> if rooted then clean_elems rooted [] cs
                 else clean_elems rooted [''..''] cs
         | t # st' \<Rightarrow>
             if t = ''..'' then clean_elems rooted (''..'' # st) cs
             else clean_elems rooted st' cs)
      else clean_elems rooted (c # st) cs)"

definition Clean :: "string \<Rightarrow> string" where
  "Clean path =
     (if path = [] then ''.''
      else
        let rooted = (hd path = CHR ''/'');
            out = join_sep (clean_elems rooted [] (split_sep path))
        in if rooted then CHR ''/'' # out else if out = [] then ''.'' else out)"

definition Join :: "string list \<Rightarrow> string" where
  "Join elem =
     (case dropWhile (\<lambda>e. e = []) elem of [] \<Rightarrow> [] | e # es \<Rightarrow> Clean (join_sep (e # es)))"

definition Dir :: "string \<Rightarrow> string" where
  "Dir path = Clean (rev (dropWhile (\<lambda>c. c \<noteq> CHR ''/'') (rev path)))"

definition Base :: "string \<Rightarrow> string" where
  "Base path =
     (if path = [] then ''.''
      else
        let stripped = rev (dropWhile (\<lambda>c. c = CHR ''/'') (rev path));
            last_elem = rev (takeWhile (\<lambda>c. c \<noteq> CHR ''/'') (rev stripped))
        in if last_elem = [] then ''/'' else last_elem)"

text \<open>\<open>isAbs\<close> (memfs.go, lines 87-89): on Unix both disjuncts test the leading
  separator.\<close>

definition isAbs :: "string \<Rightarrow> bool" where
  "isAbs path \<longleftrightarrow> (case path of [] \<Rightarrow> False | c # _ \<Rightarrow> c = CHR ''/'')"

text \<open>The conversions \<open>string(bytes)\<close> and \<open>[]byte(s)\<close>.\<close>

definition string_of_bytes :: "byte list \<Rightarrow> string" where
  "string_of_bytes bs = map (\<lambda>b. char_of (unat b)) bs"

definition bytes_of_string :: "string \<Rightarrow> byte list" where
  "bytes_of_string s = map of_char s"

section \<open>memfs: the storage\<close>

text \<open>
  Modelled from the spec: the declaration of \<open>storage\<close> is not among the source
  files.  Spec 3: a "mapping from normalized absolute path to Entry (keys unique; one
  Entry per path)".  The filesystem state is that index from paths to entries (each a
  \<open>*file\<close>, here its fields), the store of content buffers, and the next address an
  allocation returns.  Go's map has no order; the list's order stands for an arbitrary
  one, and a lookup finds the first entry of a path.
\<close>

record Memory =
  files :: "(string \<times> file_t) list"
  store :: heap
  fresh :: nat

text \<open>Modelled from the spec: \<open>storage.Get\<close> is not among the source files.  Spec 4.3:
  "exact-path lookup; absent path is a normal negative result, not a fault".\<close>

definition Get :: "Memory \<Rightarrow> string \<Rightarrow> file_t option" where
  "Get m path = map_of (files m) path"

text \<open>Modelled from the spec: the "ancestor directories along the path" of
  \<open>storage.New\<close>, which is not among the source files, are the results of repeated
  \<open>Dir\<close>, nearest first, up to the root; the bound on the steps exceeds the number
  of elements a path can have.\<close>

fun ancestors_upto :: "nat \<Rightarrow> string \<Rightarrow> string list" where
  "ancestors_upto 0 p = []"
| "ancestors_upto (Suc k) p =
     (let d = Dir p in if d = p then [] else d # ancestors_upto k d)"

definition ancestors :: "string \<Rightarrow> string list" where
  "ancestors p = ancestors_upto (Suc (length p)) p"

text \<open>Modelled from the spec: a fresh Entry (of \<open>storage.New\<close>) with an empty buffer
  of its own, entered under its path; and the making of the missing ones among a list
  of directories.\<close>

definition alloc_entry :: "time \<Rightarrow> Memory \<Rightarrow> string \<Rightarrow> FileMode \<Rightarrow> go_int \<Rightarrow> Memory \<times> file_t" where
  "alloc_entry now m path md flg =
     (let f = \<lparr>name = Base path, content = fresh m, position = 0, flag = flg,
               mode = md, mtime = now, isClosed = False\<rparr>
      in (m\<lparr>files := (path, f) # files m,
            store := (store m)(fresh m := []),
            fresh := Suc (fresh m)\<rparr>, f))"

fun mkdirs :: "time \<Rightarrow> FileMode \<Rightarrow> Memory \<Rightarrow> string list \<Rightarrow> Memory" where
  "mkdirs now md m [] = m"
| "mkdirs now md m (d # ds) =
     (case Get m d of
        Some e \<Rightarrow> mkdirs now md m ds
      | None \<Rightarrow> mkdirs now md (fst (alloc_entry now m d md 0)) ds)"

text \<open>
  Modelled from the spec: \<open>storage.New\<close> is not among the source files.  Spec 4.3: "if
  path exists and O_EXCL was requested, fails with already-exists; otherwise creates (or
  reuses, depending on exclusivity) an Entry, auto-creating any missing ancestor
  directories along the path".  The new Entry has the path's base name, the given mode
  and flag, the current time and an empty buffer of its own; a directory made on the way
  has the permission bits of the new Entry and, holding no data, an empty buffer.
\<close>

definition New ::
  "time \<Rightarrow> Memory \<Rightarrow> string \<Rightarrow> FileMode \<Rightarrow> go_int \<Rightarrow> Memory \<times> (error + file_t)" where
  "New now m path md flg =
     (case Get m path of
        Some f \<Rightarrow> if isExclusive flg then (m, Inl ErrExist) else (m, Inr f)
      | None \<Rightarrow>
          (case alloc_entry now m path md flg of
             (m', f) \<Rightarrow>
               (mkdirs now ((md AND ModePerm) OR ModeDir) m' (ancestors path), Inr f)))"

text \<open>Modelled from the spec: \<open>storage.Children\<close> is not among the source files.  Spec
  4.3: "returns all Entries whose path's immediate parent equals path"; the root, its
  own \<open>Dir\<close>, is no child of itself.\<close>

definition Children :: "Memory \<Rightarrow> string \<Rightarrow> file_t list" where
  "Children m path = map snd (filter (\<lambda>(p, f). Dir p = path \<and> p \<noteq> path) (files m))"

section \<open>memfs: the filesystem (type Memory, memfs.go, lines 34-207)\<close>

definition resolveLink :: "heap \<Rightarrow> string \<Rightarrow> file_t \<Rightarrow> string \<times> bool" where
  "resolveLink h fullpath f =
     (if \<not> isSymlink (mode f) then (fullpath, False)
      else
        let target = string_of_bytes (h (content f))
        in (if \<not> isAbs target then Join [Dir fullpath, target] else target, True))"

text \<open>The end of \<open>OpenFile\<close>, from the directory test on.\<close>

definition open_entry ::
  "time \<Rightarrow> Memory \<Rightarrow> file_t \<Rightarrow> string \<Rightarrow> go_int \<Rightarrow> FileMode \<Rightarrow> Memory \<times> (error + file_t)" where
  "open_entry now m f filename flg perm =
     (if IsDir (mode f) then (m, Inl (CannotOpenDirectory filename))
      else
        (case Duplicate now (store m) f filename perm flg of
           (h', new) \<Rightarrow> (m\<lparr>store := h'\<rparr>, Inr new)))"

text \<open>
  \<open>Memory.OpenFile\<close>.  The recursion through symbolic links has no bound in the
  source: \<open>None\<close> is a call that does not return.  The clock is read as \<open>now\<close>
  throughout one call.
\<close>

partial_function (option) OpenFile ::
  "time \<Rightarrow> Memory \<Rightarrow> string \<Rightarrow> go_int \<Rightarrow> FileMode \<Rightarrow> (Memory \<times> (error + file_t)) option" where
  "OpenFile now m filename flg perm =
     (case Get m filename of
        None \<Rightarrow>
          if \<not> isCreate flg then Some (m, Inl ErrNotExist)
          else
            (case New now m filename perm flg of
               (m', Inl err) \<Rightarrow> Some (m', Inl err)
             | (m', Inr f) \<Rightarrow> Some (open_entry now m' f filename flg perm))
      | Some f \<Rightarrow>
          if isExclusive flg then Some (m, Inl ErrExist)
          else if snd (resolveLink (store m) filename f)
            then OpenFile now m (fst (resolveLink (store m) filename f)) flg perm
          else Some (open_entry now m f filename flg perm))"

text \<open>\<open>Memory.Create\<close> (permission octal 0666, hexadecimal 1B6) and \<open>Memory.Open\<close>.\<close>

definition Create :: "time \<Rightarrow> Memory \<Rightarrow> string \<Rightarrow> (Memory \<times> (error + file_t)) option" where
  "Create now m filename = OpenFile now m filename (O_RDWR OR O_CREATE OR O_TRUNC) 0x1B6"

definition Open :: "time \<Rightarrow> Memory \<Rightarrow> string \<Rightarrow> (Memory \<times> (error + file_t)) option" where
  "Open now m filename = OpenFile now m filename O_RDONLY 0"

text \<open>\<open>Memory.Stat\<close>: the name of the result is the base name of the path asked for.\<close>

partial_function (option) Stat :: "Memory \<Rightarrow> string \<Rightarrow> (error + fileInfo) option" where
  "Stat m filename =
     (case Get m filename of
        None \<Rightarrow> Some (Inl ErrNotExist)
      | Some f \<Rightarrow>
          if snd (resolveLink (store m) filename f) then
            Option.bind (Stat m (fst (resolveLink (store m) filename f)))
              (\<lambda>r. case r of
                 Inl err \<Rightarrow> Some (Inl err)
               | Inr fi \<Rightarrow> Some (Inr (fi\<lparr>fi_name := Base filename\<rparr>)))
          else Some (Inr ((file_Stat (store m) f)\<lparr>fi_name := Base filename\<rparr>)))"

definition Lstat :: "Memory \<Rightarrow> string \<Rightarrow> error + fileInfo" where
  "Lstat m filename =
     (case Get m filename of
        None \<Rightarrow> Inl ErrNotExist
      | Some f \<Rightarrow> Inr (file_Stat (store m) f))"

text \<open>
  \<open>Memory.ReadDir\<close>.  \<open>sort.Sort(ByName(entries))\<close> leaves the entries in ascending
  order of their names (byte-wise string order); the order among equal names is not
  fixed by \<open>sort.Sort\<close>, here it is the one of the insertion sort.
\<close>

partial_function (option) ReadDir :: "Memory \<Rightarrow> string \<Rightarrow> (error + fileInfo list) option" where
  "ReadDir m path =
     (case Get m path of
        Some f \<Rightarrow>
          if snd (resolveLink (store m) path f)
            then ReadDir m (fst (resolveLink (store m) path f))
          else Some (Inr (sort_key fi_name (map (file_Stat (store m)) (Children m path))))
      | None \<Rightarrow> Some (Inl (PathError ''open'' path ENOENT)))"

text \<open>The recursion equations serve as code equations.\<close>

declare OpenFile.simps [code] Stat.simps [code] ReadDir.simps [code]

text \<open>
  \<open>util.WriteFile\<close> of go-billy, which \<open>Symlink\<close> calls: open with
  \<open>O_WRONLY|O_CREATE|O_TRUNC\<close>, write the data, close; the first error is returned.
  \<open>Symlink\<close> passes the permission octal 0777 (hexadecimal 1FF) with \<open>ModeSymlink\<close>.
\<close>

definition WriteFile ::
  "time \<Rightarrow> Memory \<Rightarrow> string \<Rightarrow> byte list \<Rightarrow> FileMode \<Rightarrow> (Memory \<times> error option) option" where
  "WriteFile now m filename data perm =
     (case OpenFile now m filename (O_WRONLY OR O_CREATE OR O_TRUNC) perm of
        None \<Rightarrow> None
      | Some (m', Inl err) \<Rightarrow> Some (m', Some err)
      | Some (m', Inr f) \<Rightarrow>
          (case Write now (store m') f data of
             (h', f', n, err) \<Rightarrow>
               let err' = (if err = None \<and> n < length data then Some ErrShortWrite else err)
               in Some (m'\<lparr>store := h'\<rparr>,
                        if err' = None then snd (Close f') else err')))"

definition Symlink :: "time \<Rightarrow> Memory \<Rightarrow> string \<Rightarrow> string \<Rightarrow> (Memory \<times> error option) option" where
  "Symlink now m target link =
     (case Stat m link of
        None \<Rightarrow> None
      | Some (Inr fi) \<Rightarrow> Some (m, Some ErrExist)
      | Some (Inl err) \<Rightarrow>
          if \<not> IsNotExist err then Some (m, Some err)
          else WriteFile now m link (bytes_of_string target) (0x1FF OR ModeSymlink))"

definition Readlink :: "Memory \<Rightarrow> string \<Rightarrow> string \<times> error option" where
  "Readlink m link =
     (case Get m link of
        None \<Rightarrow> ([], Some ErrNotExist)
      | Some f \<Rightarrow>
          if \<not> isSymlink (mode f)
            then ([], Some (PathError ''readlink'' link NotASymlink))
          else (string_of_bytes (store m (content f)), None))"

text \<open>
  The symbolic-link chain from a path: \<open>resolves m p p' e\<close> holds when following the
  links from \<open>p\<close>, as \<open>resolveLink\<close> does, ends at the path \<open>p'\<close> whose Entry
  \<open>e\<close> is no link.
\<close>

inductive resolves :: "Memory \<Rightarrow> string \<Rightarrow> string \<Rightarrow> file_t \<Rightarrow> bool" where
  resolves_here:
    "Get m p = Some f \<Longrightarrow> \<not> isSymlink (mode f) \<Longrightarrow> resolves m p p f"
| resolves_link:
    "Get m p = Some f \<Longrightarrow> isSymlink (mode f) \<Longrightarrow>
     resolves m (fst (resolveLink (store m) p f)) p' e \<Longrightarrow> resolves m p p' e"

code_pred resolves .


section \<open>file: the platform metadata (file_unix.go)\<close>

text \<open>
  \<open>syscall.Stat_t\<close> and \<open>syscall.Timespec\<close> of linux/amd64, with the fields
  \<open>getOSFileInfo\<close> reads.  \<open>time_Unix sec nsec\<close> is the \<open>time.Time\<close> that
  \<open>time.Unix(sec, nsec)\<close> returns.
\<close>

record Timespec =
  Sec :: int64
  Nsec :: int64

record Stat_t =
  st_Ino :: "64 word"
  st_Nlink :: "64 word"
  st_Uid :: "32 word"
  st_Gid :: "32 word"
  st_Rdev :: "64 word"
  st_Atim :: Timespec
  st_Ctim :: Timespec

datatype go_Time = time_Unix int64 int64

text \<open>Modelled from the spec: the declaration of \<open>FileInfo\<close> in package file is
  not among the source files.  Spec 3 lists its fields (link count, owner uid and gid,
  device major and minor, inode, atime, ctime); their names are the ones
  \<open>getOSFileInfo\<close> assigns, \<open>Nlink\<close> a \<open>uint32\<close> by the conversion written there,
  the others of the type of the value assigned.\<close>

record FileInfo =
  Nlink :: "32 word"
  UID :: "32 word"
  GID :: "32 word"
  Major :: "32 word"
  Minor :: "32 word"
  Fileid :: "64 word"
  Atime :: go_Time
  Ctime :: go_Time

text \<open>\<open>unix.Major\<close> and \<open>unix.Minor\<close> of golang.org/x/sys/unix (linux): the device
  number's bits 8-19 and 44-63 make the major number, its bits 0-7 and 20-43 the minor
  number.\<close>

definition unix_Major :: "64 word \<Rightarrow> 32 word" where
  "unix_Major dev =
     ucast (drop_bit 8 (dev AND 0x00000000000fff00)) OR
     ucast (drop_bit 32 (dev AND 0xfffff00000000000))"

definition unix_Minor :: "64 word \<Rightarrow> 32 word" where
  "unix_Minor dev =
     ucast (drop_bit 0 (dev AND 0x00000000000000ff)) OR
     ucast (drop_bit 12 (dev AND 0x00000ffffff00000))"

text \<open>A call returns a value or panics.\<close>

datatype 'a outcome = Returns 'a | Panics

text \<open>
  What \<open>Sys()\<close> returns: a \<open>*syscall.Stat_t\<close>, which is \<open>StatPtr (Some s)\<close> when
  it points to the structure \<open>s\<close> and \<open>StatPtr None\<close> when it is the nil pointer of
  that type; or a value of any other type, the untyped \<open>nil\<close> included.
\<close>

datatype sys_value = StatPtr "Stat_t option" | OtherSys

text \<open>An \<open>os.FileInfo\<close> that is not the nil interface value: what its methods
  return.\<close>

record os_FileInfo =
  os_Name :: string
  os_Size :: int64
  os_Mode :: FileMode
  os_ModTime :: go_Time
  os_Sys :: sys_value

text \<open>
  \<open>getOSFileInfo\<close>.  The argument \<open>None\<close> is the nil interface value, on which the
  call \<open>info.Sys()\<close> panics.  The type assertion to \<open>*syscall.Stat_t\<close> succeeds for
  every pointer of that type, the nil pointer included, and on the nil pointer the
  read of \<open>s.Nlink\<close> panics.
\<close>

definition getOSFileInfo :: "os_FileInfo option \<Rightarrow> FileInfo option outcome" where
  "getOSFileInfo info =
     (case info of
        None \<Rightarrow> Panics
      | Some i \<Rightarrow>
          (case os_Sys i of
             StatPtr None \<Rightarrow> Panics
           | StatPtr (Some s) \<Rightarrow>
               Returns (Some
                 \<lparr>Nlink = ucast (st_Nlink s),
                  UID = st_Uid s,
                  GID = st_Gid s,
                  Major = unix_Major (st_Rdev s),
                  Minor = unix_Minor (st_Rdev s),
                  Fileid = st_Ino s,
                  Atime = time_Unix (Sec (st_Atim s)) (Nsec (st_Atim s)),
                  Ctime = time_Unix (Sec (st_Ctim s)) (Nsec (st_Ctim s))\<rparr>)
           | OtherSys \<Rightarrow> Returns None))"

section \<open>Example states\<close>

text \<open>A buffer \<open>[1, 2, 3]\<close> at address 0 and a read-only handle on it at position 1.\<close>

definition ex_heap :: heap where
  "ex_heap = (\<lambda>_. [])(0 := [1, 2, 3])"

definition ex_reader :: file_t where
  "ex_reader =
     \<lparr>name = ''/f'', content = 0, position = 1, flag = O_RDONLY, mode = 0x1A4,
      mtime = 0, isClosed = False\<rparr>"

text \<open>A handle on the same buffer opened with \<open>O_WRONLY|O_APPEND\<close>: its position is
  the buffer's end.\<close>

definition ex_appender :: file_t where
  "ex_appender =
     \<lparr>name = ''/f'', content = 0, position = 3, flag = O_WRONLY OR O_APPEND, mode = 0x1A4,
      mtime = 0, isClosed = False\<rparr>"

text \<open>
  The tree of spec 8: the directories \<open>/\<close>, \<open>/a\<close> and \<open>/a/b\<close>, the file
  \<open>/a/b/f.txt\<close> holding \<open>hello\<close>, the link \<open>/link\<close> to it, and a link \<open>/dlink\<close> to
  the directory \<open>/a/b\<close>.
\<close>

definition ex_entry :: "string \<Rightarrow> nat \<Rightarrow> FileMode \<Rightarrow> file_t" where
  "ex_entry nm c md =
     \<lparr>name = nm, content = c, position = 0, flag = 0, mode = md, mtime = 7,
      isClosed = False\<rparr>"

definition ex_fs :: Memory where
  "ex_fs =
     \<lparr>files =
        [(''/link'', ex_entry ''link'' 4 (0x1FF OR ModeSymlink)),
         (''/dlink'', ex_entry ''dlink'' 5 (0x1FF OR ModeSymlink)),
         (''/a/b/f.txt'', ex_entry ''f.txt'' 3 0x1B6),
         (''/a/b'', ex_entry ''b'' 2 (0x1ED OR ModeDir)),
         (''/a'', ex_entry ''a'' 1 (0x1ED OR ModeDir)),
         (''/'', ex_entry ''/'' 0 (0x1ED OR ModeDir))],
      store = (\<lambda>_. [])
        (3 := bytes_of_string ''hello'',
         4 := bytes_of_string ''/a/b/f.txt'',
         5 := bytes_of_string ''/a/b''),
      fresh = 6\<rparr>"

text \<open>The empty filesystem.\<close>

definition empty_fs :: Memory where
  "empty_fs = \<lparr>files = [], store = (\<lambda>_. []), fresh = 0\<rparr>"

text \<open>A chain of links that ends nowhere: \<open>/l2\<close> points to \<open>/l\<close>, which points to
  the missing \<open>/missing\<close>.\<close>

definition ex_dangling :: Memory where
  "ex_dangling =
     \<lparr>files =
        [(''/l2'', ex_entry ''l2'' 1 (0x1FF OR ModeSymlink)),
         (''/l'', ex_entry ''l'' 0 (0x1FF OR ModeSymlink))],
      store = (\<lambda>_. [])
        (0 := bytes_of_string ''/missing'',
         1 := bytes_of_string ''/l''),
      fresh = 2\<rparr>"

text \<open>Two links that point to each other.\<close>

definition ex_cycle :: Memory where
  "ex_cycle =
     \<lparr>files =
        [(''/a'', ex_entry ''a'' 2 (0x1FF OR ModeSymlink)),
         (''/b'', ex_entry ''b'' 3 (0x1FF OR ModeSymlink))],
      store = (\<lambda>_. [])
        (2 := bytes_of_string ''/b'',
         3 := bytes_of_string ''/a''),
      fresh = 4\<rparr>"


text \<open>A native stat structure of a block device with major number 8 and minor number
  1, whose link count does not fit 32 bits, the same with a link count of 2, and an
  \<open>os.FileInfo\<close> that carries the former.\<close>

definition ex_stat :: Stat_t where
  "ex_stat =
     \<lparr>st_Ino = 42, st_Nlink = 0x100000001, st_Uid = 1000, st_Gid = 100, st_Rdev = 0x801,
      st_Atim = \<lparr>Sec = 1700000000, Nsec = 123456789\<rparr>,
      st_Ctim = \<lparr>Sec = 1700000001, Nsec = 987654321\<rparr>\<rparr>"

definition ex_stat_small :: Stat_t where
  "ex_stat_small = ex_stat\<lparr>st_Nlink := 2\<rparr>"

definition ex_info :: os_FileInfo where
  "ex_info =
     \<lparr>os_Name = ''sda1'', os_Size = 0, os_Mode = 0x1A4,
      os_ModTime = time_Unix 1700000000 0, os_Sys = StatPtr (Some ex_stat)\<rparr>"

section \<open>Handles: closing, access modes, truncation, reading and writing\<close>

lemma Close_open: "\<not> isClosed f \<Longrightarrow> Close f = (f\<lparr>isClosed := True\<rparr>, None)"
  by (simp add: Close_def)

lemma Close_closed: "isClosed f \<Longrightarrow> Close f = (f, Some ErrClosed)"
  by (simp add: Close_def)

lemma ReadAt_closed: "isClosed f \<Longrightarrow> ReadAt h f b off = (b, 0, Some ErrClosed)"
  by (simp add: ReadAt_def)

lemma Read_closed: "isClosed f \<Longrightarrow> Read h f b = (f, b, 0, Some ErrClosed)"
  by (simp add: Read_def ReadAt_def)

lemma WriteAt_closed: "isClosed f \<Longrightarrow> WriteAt now h f p off = (h, f, 0, Some ErrClosed)"
  by (simp add: WriteAt_def)

lemma Write_closed: "isClosed f \<Longrightarrow> Write now h f p = (h, f, 0, Some ErrClosed)"
  by (simp add: Write_def WriteAt_def)

lemma Seek_closed: "isClosed f \<Longrightarrow> Seek h f offset whence = (f, 0, Some ErrClosed)"
  by (simp add: Seek_def)

text \<open>
  C1.  \<open>Close\<close> leaves every handle closed, and on the closed handle \<open>Truncate\<close> has
  no test of \<open>isClosed\<close>: \<open>Truncate(0)\<close> returns the nil error, empties the shared
  buffer and sets the mtime, where the claim has it fail with the already-closed error
  as \<open>ReadAt\<close>, \<open>WriteAt\<close> and \<open>Seek\<close> do.
\<close>

theorem Truncate_after_Close_succeeds:
  "isClosed (fst (Close f)) \<and>
   Truncate now h (fst (Close f)) 0 =
     Some (h(content f := []), (fst (Close f))\<lparr>mtime := now\<rparr>, None)"
  by (auto simp: Close_def Truncate_def Let_def fun_upd_idem_iff)

text \<open>The access modes on an open handle: \<open>O_RDONLY\<close> with no other flag reads
  and does not write; \<open>O_WRONLY\<close> and \<open>O_RDWR\<close>, with any flags outside the two
  access bits, write, and only \<open>O_RDWR\<close> reads as well.\<close>

lemma access_bits:
  fixes flg :: go_int
  shows "flg AND 3 = 1 \<Longrightarrow> flg AND 1 \<noteq> 0 \<and> flg AND 2 = 0 \<and> flg \<noteq> 0"
    and "flg AND 3 = 2 \<Longrightarrow> flg AND 2 \<noteq> 0"
proof -
  have a: "flg AND 1 = (flg AND 3) AND 1" "flg AND 2 = (flg AND 3) AND 2"
    by (simp_all add: and.assoc)
  show "flg AND 3 = 1 \<Longrightarrow> flg AND 1 \<noteq> 0 \<and> flg AND 2 = 0 \<and> flg \<noteq> 0"
    using a by auto
  show "flg AND 3 = 2 \<Longrightarrow> flg AND 2 \<noteq> 0"
    using a by auto
qed

lemma access_mode_alone:
  assumes "\<not> isClosed f"
  shows "flag f = O_RDONLY \<Longrightarrow>
           ReadAt h f b off = content_ReadAt (h (content f)) b off \<and>
           WriteAt now h f p off = (h, f, 0, Some WriteNotSupported)"
    and "flag f AND 3 = O_WRONLY \<Longrightarrow>
           ReadAt h f b off = (b, 0, Some ReadNotSupported) \<and>
           snd (snd (snd (WriteAt now h f p off))) = snd (snd (content_WriteAt (h (content f)) p off))"
    and "flag f AND 3 = O_RDWR \<Longrightarrow>
           ReadAt h f b off = content_ReadAt (h (content f)) b off \<and>
           snd (snd (snd (WriteAt now h f p off))) = snd (snd (content_WriteAt (h (content f)) p off))"
proof -
  show "flag f = O_RDONLY \<Longrightarrow>
           ReadAt h f b off = content_ReadAt (h (content f)) b off \<and>
           WriteAt now h f p off = (h, f, 0, Some WriteNotSupported)"
    using assms
    by (simp add: ReadAt_def WriteAt_def isReadOnly_def isReadAndWrite_def isWriteOnly_def
        O_RDONLY_def)
  show "flag f AND 3 = O_WRONLY \<Longrightarrow>
           ReadAt h f b off = (b, 0, Some ReadNotSupported) \<and>
           snd (snd (snd (WriteAt now h f p off))) = snd (snd (content_WriteAt (h (content f)) p off))"
    using assms access_bits(1) [of "flag f"]
    by (simp add: ReadAt_def WriteAt_def isReadOnly_def isReadAndWrite_def isWriteOnly_def
        O_RDONLY_def O_WRONLY_def O_RDWR_def split: prod.splits)
  show "flag f AND 3 = O_RDWR \<Longrightarrow>
           ReadAt h f b off = content_ReadAt (h (content f)) b off \<and>
           snd (snd (snd (WriteAt now h f p off))) = snd (snd (content_WriteAt (h (content f)) p off))"
    using assms access_bits(2) [of "flag f"]
    by (simp add: ReadAt_def WriteAt_def isReadOnly_def isReadAndWrite_def isWriteOnly_def
        O_RDONLY_def O_WRONLY_def O_RDWR_def split: prod.splits)
qed

text \<open>
  C2.  A handle that \<open>Duplicate\<close> makes for the flags \<open>O_RDONLY|O_CREATE\<close> is open, and
  both \<open>ReadAt\<close> and \<open>WriteAt\<close> reject it: \<open>isReadOnly\<close> compares the whole flag word
  with \<open>O_RDONLY\<close>, so the read-only access mode is lost once another flag is set,
  where the claim has the read permitted whatever other flags are combined.
\<close>

theorem ReadAt_RDONLY_CREATE_rejected:
  "\<not> isClosed (snd (Duplicate now h e filename perm (O_RDONLY OR O_CREATE))) \<and>
   flag (snd (Duplicate now h e filename perm (O_RDONLY OR O_CREATE))) = O_RDONLY OR O_CREATE \<and>
   ReadAt h' (snd (Duplicate now h e filename perm (O_RDONLY OR O_CREATE))) b off =
     (b, 0, Some ReadNotSupported) \<and>
   WriteAt now' h' (snd (Duplicate now h e filename perm (O_RDONLY OR O_CREATE))) p off =
     (h', snd (Duplicate now h e filename perm (O_RDONLY OR O_CREATE)), 0,
      Some WriteNotSupported)"
  by (simp add: Duplicate_def Let_def ReadAt_def WriteAt_def isTruncate_def isAppend_def
      isReadAndWrite_def isReadOnly_def isWriteOnly_def
      O_RDONLY_def O_CREATE_def O_TRUNC_def O_APPEND_def O_RDWR_def O_WRONLY_def)

text \<open>
  C7.  For sizes \<open>0 \<le> n < m\<close> and any buffer: \<open>Truncate(n)\<close> returns and leaves the
  first \<open>n\<close> bytes of the buffer (zero-padded when the buffer was shorter), so nothing
  of the old content from index \<open>n\<close> on is left; \<open>Truncate(m)\<close> then returns, the
  buffer has length \<open>m\<close>, its first \<open>n\<close> bytes are unchanged and every byte at an
  index in \<open>[n, m)\<close> is zero.
\<close>

theorem Truncate_shrink_then_grow_zero:
  assumes "0 \<le> sint n" and "sint n < sint m"
  shows "\<exists>h1 f1 h2 f2.
     Truncate t1 h f n = Some (h1, f1, None) \<and>
     h1 (content f) =
       take (nat (sint n)) (h (content f)) @
       replicate (nat (sint n) - length (h (content f))) 0 \<and>
     content f1 = content f \<and>
     Truncate t2 h1 f1 m = Some (h2, f2, None) \<and>
     length (h2 (content f)) = nat (sint m) \<and>
     take (nat (sint n)) (h2 (content f)) = h1 (content f) \<and>
     (\<forall>i. nat (sint n) \<le> i \<and> i < nat (sint m) \<longrightarrow> h2 (content f) ! i = 0)"
  using assms by (auto simp: Truncate_def Let_def nth_append)

text \<open>\<open>Truncate(1)\<close> and then \<open>Truncate(3)\<close> on the buffer \<open>[1, 2, 3]\<close>.\<close>

theorem Truncate_shrink_then_grow_zero_witness:
  "(0::int) \<le> sint (1::int64) \<and> sint (1::int64) < sint (3::int64) \<and>
    (\<exists>h1 f1 h2 f2.
     Truncate 1 ex_heap ex_reader 1 = Some (h1, f1, None) \<and>
     h1 0 = [1] \<and>
     Truncate 2 h1 f1 3 = Some (h2, f2, None) \<and>
     length (h2 0) = 3 \<and> h2 0 ! 1 = 0 \<and> h2 0 ! 2 = 0)"
proof -
  have a: "(0::int) \<le> sint (1::int64)" and b: "sint (1::int64) < sint (3::int64)" by simp_all
  from Truncate_shrink_then_grow_zero[OF a b, of 1 ex_heap ex_reader 2]
  obtain h1 f1 h2 f2 where
    1: "Truncate 1 ex_heap ex_reader 1 = Some (h1, f1, None)" and
    2: "h1 (content ex_reader) = take (nat (sint (1::int64))) (ex_heap (content ex_reader)) @
       replicate (nat (sint (1::int64)) - length (ex_heap (content ex_reader))) 0" and
    3: "Truncate 2 h1 f1 3 = Some (h2, f2, None)" and
    4: "length (h2 (content ex_reader)) = nat (sint (3::int64))" and
    5: "\<forall>i. nat (sint (1::int64)) \<le> i \<and> i < nat (sint (3::int64)) \<longrightarrow> h2 (content ex_reader) ! i = 0"
    by blast
  have c: "content ex_reader = 0" by (simp add: ex_reader_def)
  from 2 have e2: "h1 0 = [1]" by (simp add: c ex_heap_def)
  from 4 have e4: "length (h2 0) = 3" by (simp add: c)
  from 5 have "h2 0 ! 1 = 0" "h2 0 ! 2 = 0" by (simp_all add: c)
  with a b 1 e2 3 e4 show ?thesis by blast
qed

text \<open>
  C8.  On an open readable handle, \<open>Read\<close> returns the destination and the count of
  the buffer's read at the current position and moves the position by exactly that
  count; an end-of-data error that comes with at least one byte is replaced by the nil
  error, every other error is passed on, so \<open>Read\<close> reports end-of-data only with a
  count of zero.
\<close>

theorem Read_advances_and_hides_EOF:
  assumes "\<not> isClosed f" and "isReadAndWrite (flag f) \<or> isReadOnly (flag f)"
    and "content_ReadAt (h (content f)) b (position f) = (b0, n0, err0)"
  shows "ReadAt h f b (position f) = (b0, n0, err0) \<and>
     (\<exists>err. Read h f b = (f\<lparr>position := position f + of_nat n0\<rparr>, b0, n0, err) \<and>
        (if err0 = Some EOF \<and> n0 \<noteq> 0 then err = None else err = err0) \<and>
        (err = Some EOF \<longrightarrow> n0 = 0))"
  using assms by (auto simp: Read_def ReadAt_def)

text \<open>The handle at position 1 of the buffer \<open>[1, 2, 3]\<close> reads two bytes into a
  destination of four without an error, and the next \<open>Read\<close> reports end-of-data with
  no byte.\<close>

theorem Read_advances_and_hides_EOF_witness:
  "\<not> isClosed ex_reader \<and>
   (isReadAndWrite (flag ex_reader) \<or> isReadOnly (flag ex_reader)) \<and>
   content_ReadAt (ex_heap (content ex_reader)) [9, 9, 9, 9] (position ex_reader) =
     ([2, 3, 9, 9], 2, Some EOF) \<and>
   Read ex_heap ex_reader [9, 9, 9, 9] = (ex_reader\<lparr>position := 3\<rparr>, [2, 3, 9, 9], 2, None) \<and>
   Read ex_heap (ex_reader\<lparr>position := 3\<rparr>) [9, 9, 9, 9] =
     (ex_reader\<lparr>position := 3\<rparr>, [9, 9, 9, 9], 0, Some EOF)"
proof -
  have a: "\<not> isClosed ex_reader" by (simp add: ex_reader_def)
  have b: "isReadAndWrite (flag ex_reader) \<or> isReadOnly (flag ex_reader)"
    by (simp add: ex_reader_def isReadOnly_def)
  have c: "content_ReadAt (ex_heap (content ex_reader)) [9, 9, 9, 9] (position ex_reader) =
     ([2, 3, 9, 9], 2, Some EOF)"
    by (simp add: ex_reader_def ex_heap_def content_ReadAt_def Let_def)
  have d: "Read ex_heap ex_reader [9, 9, 9, 9] = (ex_reader\<lparr>position := 3\<rparr>, [2, 3, 9, 9], 2, None)"
    using Read_advances_and_hides_EOF [of ex_reader ex_heap "[9, 9, 9, 9]" "[2, 3, 9, 9]" 2 "Some EOF"] a b c
    by (auto simp: ex_reader_def)
  have a': "\<not> isClosed (ex_reader\<lparr>position := 3\<rparr>)" by (simp add: ex_reader_def)
  have b': "isReadAndWrite (flag (ex_reader\<lparr>position := 3\<rparr>)) \<or> isReadOnly (flag (ex_reader\<lparr>position := 3\<rparr>))"
    by (simp add: ex_reader_def isReadOnly_def)
  have c': "content_ReadAt (ex_heap (content (ex_reader\<lparr>position := 3\<rparr>))) [9, 9, 9, 9] (position (ex_reader\<lparr>position := 3\<rparr>)) =
     ([9, 9, 9, 9], 0, Some EOF)"
    by (simp add: ex_reader_def ex_heap_def content_ReadAt_def Let_def)
  have e: "Read ex_heap (ex_reader\<lparr>position := 3\<rparr>) [9, 9, 9, 9] =
     (ex_reader\<lparr>position := 3\<rparr>, [9, 9, 9, 9], 0, Some EOF)"
    using Read_advances_and_hides_EOF [of "ex_reader\<lparr>position := 3\<rparr>" ex_heap "[9, 9, 9, 9]" "[9, 9, 9, 9]" 0 "Some EOF"] a' b' c'
    by (auto simp: ex_reader_def)
  from a b c d e show ?thesis by blast
qed

text \<open>
  C10.  On an open writable handle, \<open>WriteAt(p, off)\<close> returns the count and the error
  of the buffer's write at \<open>off\<close>, sets the position to \<open>off\<close> plus the count and
  the mtime to the current time; the next \<open>Write\<close> is a \<open>WriteAt\<close> at that position
  and the next \<open>Read\<close> a \<open>ReadAt\<close> there.  After \<open>Seek(off, SeekStart)\<close> a
  \<open>Write\<close> is the very \<open>WriteAt\<close> at \<open>off\<close>, whatever the handle's flags, so an
  \<open>O_APPEND\<close> handle that was moved writes where it stands and not at the end.
\<close>

theorem WriteAt_sets_position:
  assumes "\<not> isClosed f" and "isReadAndWrite (flag f) \<or> isWriteOnly (flag f)"
  shows "\<exists>h' f' n err.
     WriteAt now h f p off = (h', f', n, err) \<and>
     content_WriteAt (h (content f)) p off = (h' (content f), n, err) \<and>
     position f' = off + of_nat n \<and> mtime f' = now \<and>
     Write now' h' f' q = WriteAt now' h' f' q (off + of_nat n) \<and>
     Read h' f' b =
       (case ReadAt h' f' b (off + of_nat n) of
          (b', k, e) \<Rightarrow>
            (f'\<lparr>position := off + of_nat n + of_nat k\<rparr>, b', k,
             if e = Some EOF \<and> k \<noteq> 0 then None else e)) \<and>
     Seek h f off SeekStart = (f\<lparr>position := off\<rparr>, off, None) \<and>
     Write now h (f\<lparr>position := off\<rparr>) p = (h', f', n, err)"
proof -
  obtain bs' n err where cw: "content_WriteAt (h (content f)) p off = (bs', n, err)"
    by (cases "content_WriteAt (h (content f)) p off") auto
  let ?f' = "f\<lparr>position := off + of_nat n, mtime := now\<rparr>"
  let ?h' = "h(content f := bs')"
  have W: "WriteAt now h f p off = (?h', ?f', n, err)"
    using assms by (auto simp: WriteAt_def cw)
  have S: "Seek h f off SeekStart = (f\<lparr>position := off\<rparr>, off, None)"
    using assms by (simp add: Seek_def SeekStart_def SeekCurrent_def Let_def)
  have W2: "Write now h (f\<lparr>position := off\<rparr>) p = (?h', ?f', n, err)"
    using assms by (auto simp: Write_def WriteAt_def cw)
  have R: "Read ?h' ?f' b =
       (case ReadAt ?h' ?f' b (off + of_nat n) of
          (b', k, e) \<Rightarrow>
            (?f'\<lparr>position := off + of_nat n + of_nat k\<rparr>, b', k,
             if e = Some EOF \<and> k \<noteq> 0 then None else e))"
    by (simp add: Read_def)
  have Wn: "Write now' ?h' ?f' q = WriteAt now' ?h' ?f' q (off + of_nat n)"
    by (simp add: Write_def)
  have C: "content_WriteAt (h (content f)) p off = (?h' (content f), n, err)"
    by (simp add: cw)
  have P: "position ?f' = off + of_nat n" "mtime ?f' = now" by simp_all
  show ?thesis
    apply (rule exI [of _ ?h'], rule exI [of _ ?f'], rule exI [of _ n], rule exI [of _ err])
    using W C P Wn R S W2 by blast
qed

text \<open>An \<open>O_WRONLY|O_APPEND\<close> handle at the end of \<open>[1, 2, 3]\<close>, moved to the start,
  overwrites the first byte.\<close>

theorem WriteAt_sets_position_witness:
  "\<not> isClosed ex_appender \<and> isAppend (flag ex_appender) \<and>
   (isReadAndWrite (flag ex_appender) \<or> isWriteOnly (flag ex_appender)) \<and>
   position ex_appender = of_nat (length (ex_heap (content ex_appender))) \<and>
   (\<exists>h' f'. Write 5 ex_heap (fst (Seek ex_heap ex_appender 0 SeekStart)) [9] = (h', f', 1, None) \<and>
      h' 0 = [9, 2, 3] \<and> position f' = 1 \<and> mtime f' = 5)"
proof -
  have a: "\<not> isClosed ex_appender" by (simp add: ex_appender_def)
  have b: "isReadAndWrite (flag ex_appender) \<or> isWriteOnly (flag ex_appender)"
    by (simp add: ex_appender_def isWriteOnly_def O_WRONLY_def O_APPEND_def)
  have c: "isAppend (flag ex_appender)"
    by (simp add: ex_appender_def isAppend_def O_WRONLY_def O_APPEND_def)
  have d: "position ex_appender = of_nat (length (ex_heap (content ex_appender)))"
    by (simp add: ex_appender_def ex_heap_def)
  have cw: "content_WriteAt (ex_heap (content ex_appender)) [9] 0 = ([9, 2, 3], 1, None)"
    by (simp add: ex_appender_def ex_heap_def content_WriteAt_def Let_def)
  from WriteAt_sets_position [of ex_appender 5 ex_heap "[9]" 0] a b
  obtain h' f' n err where
    1: "content_WriteAt (ex_heap (content ex_appender)) [9] 0 = (h' (content ex_appender), n, err)" and
    2: "position f' = 0 + of_nat n" and 3: "mtime f' = 5" and
    4: "Seek ex_heap ex_appender 0 SeekStart = (ex_appender\<lparr>position := 0\<rparr>, 0, None)" and
    5: "Write 5 ex_heap (ex_appender\<lparr>position := 0\<rparr>) [9] = (h', f', n, err)"
    by blast
  from 1 cw have n: "n = 1" and e: "err = None" and hc: "h' (content ex_appender) = [9, 2, 3]"
    by simp_all
  from hc have hc0: "h' 0 = [9, 2, 3]" by (simp add: ex_appender_def)
  from 2 n have p: "position f' = 1" by simp
  from 4 5 n e have w: "Write 5 ex_heap (fst (Seek ex_heap ex_appender 0 SeekStart)) [9] = (h', f', 1, None)"
    by simp
  from a b c d w hc0 p 3 show ?thesis by blast
qed

section \<open>The filesystem: paths, links and listings\<close>

subsection \<open>Auxiliary facts\<close>

lemma unat_of_char: "unat (of_char c :: byte) = of_char c"
proof -
  have "(of_char c :: byte) = of_nat (of_char c)" by (simp add: of_nat_of_char)
  then have "unat (of_char c :: byte) = (of_char c :: nat) mod 2 ^ 8"
    by (simp only: unat_of_nat) simp
  moreover have "(of_char c :: nat) < 2 ^ 8"
    using nat_of_char_less_256 [of c] by simp
  ultimately show ?thesis by simp
qed

lemma string_of_bytes_of_string: "string_of_bytes (bytes_of_string s) = s"
  by (induction s) (simp_all add: string_of_bytes_def bytes_of_string_def unat_of_char)

lemma resolveLink_not_link:
  "\<not> isSymlink (mode f) \<Longrightarrow> resolveLink h p f = (p, False)"
  by (simp add: resolveLink_def)

lemma resolveLink_link:
  "isSymlink (mode f) \<Longrightarrow> snd (resolveLink h p f)"
  by (simp add: resolveLink_def Let_def)

lemma ex_Get_link: "Get ex_fs ''/link'' = Some (ex_entry ''link'' 4 (0x1FF OR ModeSymlink))"
  by (simp add: Get_def ex_fs_def)

lemma ex_Get_dlink: "Get ex_fs ''/dlink'' = Some (ex_entry ''dlink'' 5 (0x1FF OR ModeSymlink))"
  by (simp add: Get_def ex_fs_def)

lemma ex_Get_file: "Get ex_fs ''/a/b/f.txt'' = Some (ex_entry ''f.txt'' 3 0x1B6)"
  by (simp add: Get_def ex_fs_def)

lemma ex_Get_dir: "Get ex_fs ''/a/b'' = Some (ex_entry ''b'' 2 (0x1ED OR ModeDir))"
  by (simp add: Get_def ex_fs_def)

lemma ex_Get_none: "Get ex_fs ''/nope'' = None"
  by (simp add: Get_def ex_fs_def)

lemma ex_link_mode: "isSymlink (mode (ex_entry nm c (0x1FF OR ModeSymlink)))"
  by (simp add: ex_entry_def isSymlink_def ModeSymlink_def)

lemma ex_file_mode: "\<not> isSymlink (mode (ex_entry nm c 0x1B6))" "\<not> IsDir (mode (ex_entry nm c 0x1B6))"
  by (simp_all add: ex_entry_def isSymlink_def ModeSymlink_def IsDir_def ModeDir_def)

lemma ex_dir_mode: "\<not> isSymlink (mode (ex_entry nm c (0x1ED OR ModeDir)))" "IsDir (mode (ex_entry nm c (0x1ED OR ModeDir)))"
  by (simp_all add: ex_entry_def isSymlink_def ModeSymlink_def IsDir_def ModeDir_def)

lemma ex_link_target:
  "fst (resolveLink (store ex_fs) ''/link'' (ex_entry ''link'' 4 (0x1FF OR ModeSymlink))) = ''/a/b/f.txt''"
  by (simp add: resolveLink_def ex_link_mode Let_def ex_fs_def string_of_bytes_of_string isAbs_def)
    (simp add: ex_entry_def string_of_bytes_of_string isAbs_def)

lemma ex_dlink_target:
  "fst (resolveLink (store ex_fs) ''/dlink'' (ex_entry ''dlink'' 5 (0x1FF OR ModeSymlink))) = ''/a/b''"
  by (simp add: resolveLink_def ex_link_mode Let_def ex_fs_def string_of_bytes_of_string isAbs_def)
    (simp add: ex_entry_def string_of_bytes_of_string isAbs_def)


lemma ex_resolves_link: "resolves ex_fs ''/link'' ''/a/b/f.txt'' (ex_entry ''f.txt'' 3 0x1B6)"
  apply (rule resolves_link [OF ex_Get_link ex_link_mode])
  apply (subst ex_link_target)
  apply (rule resolves_here [OF ex_Get_file ex_file_mode(1)])
  done

lemma ex_resolves_dlink: "resolves ex_fs ''/dlink'' ''/a/b'' (ex_entry ''b'' 2 (0x1ED OR ModeDir))"
  apply (rule resolves_link [OF ex_Get_dlink ex_link_mode])
  apply (subst ex_dlink_target)
  apply (rule resolves_here [OF ex_Get_dir ex_dir_mode(1)])
  done




subsection \<open>OpenFile\<close>

lemma resolves_Get: "resolves m p p' e \<Longrightarrow> \<exists>f. Get m p = Some f"
  by (cases rule: resolves.cases) auto

lemma OpenFile_resolves_dir:
  assumes "resolves m p p' e" and "IsDir (mode e)" and "\<not> isExclusive flg"
  shows "OpenFile now m p flg perm = Some (m, Inl (CannotOpenDirectory p'))"
  using assms
proof (induction rule: resolves.induct)
  case (resolves_here m p f)
  then show ?case
    by (subst OpenFile.simps) (simp add: resolveLink_not_link open_entry_def)
next
  case (resolves_link m p f p' e)
  then show ?case
    by (subst OpenFile.simps) (simp add: resolveLink_link)
qed

text \<open>
  C3.  \<open>OpenFile\<close> returns, and returns an error and no handle, leaving the filesystem
  as it was: the not-exist error when the path has no Entry and the flags lack
  \<open>O_CREATE\<close>; the already-exists error when the path has an Entry and the flags
  include \<open>O_EXCL\<close>; and, when the chain of links from the path ends at a directory,
  the "cannot open directory" error naming the resolved path, unless the flags
  include \<open>O_EXCL\<close>, whose test comes first and gives the already-exists error of
  the second case.
\<close>

theorem OpenFile_failures:
  "(Get m path = None \<and> \<not> isCreate flg \<longrightarrow>
      OpenFile now m path flg perm = Some (m, Inl ErrNotExist)) \<and>
   (\<forall>f. Get m path = Some f \<and> isExclusive flg \<longrightarrow>
      OpenFile now m path flg perm = Some (m, Inl ErrExist)) \<and>
   (\<forall>p' e. resolves m path p' e \<and> IsDir (mode e) \<longrightarrow>
      OpenFile now m path flg perm =
        Some (m, Inl (if isExclusive flg then ErrExist else CannotOpenDirectory p')))"
proof (intro conjI allI impI)
  assume "Get m path = None \<and> \<not> isCreate flg"
  then show "OpenFile now m path flg perm = Some (m, Inl ErrNotExist)"
    by (subst OpenFile.simps) simp
next
  fix f assume "Get m path = Some f \<and> isExclusive flg"
  then show "OpenFile now m path flg perm = Some (m, Inl ErrExist)"
    by (subst OpenFile.simps) simp
next
  fix p' e assume a: "resolves m path p' e \<and> IsDir (mode e)"
  show "OpenFile now m path flg perm =
        Some (m, Inl (if isExclusive flg then ErrExist else CannotOpenDirectory p'))"
  proof (cases "isExclusive flg")
    case True
    from a obtain f where "Get m path = Some f" using resolves_Get by blast
    with True show ?thesis by (subst OpenFile.simps) simp
  next
    case False
    with a have "OpenFile now m path flg perm = Some (m, Inl (CannotOpenDirectory p'))"
      by (blast intro: OpenFile_resolves_dir)
    with False show ?thesis by simp
  qed
qed

text \<open>In the example tree: a missing path opened read-only, the file opened with
  \<open>O_EXCL\<close>, and the link to the directory \<open>/a/b\<close> opened read-only.\<close>

theorem OpenFile_failures_witness:
  "Get ex_fs ''/nope'' = None \<and> \<not> isCreate O_RDONLY \<and>
   OpenFile 9 ex_fs ''/nope'' O_RDONLY 0 = Some (ex_fs, Inl ErrNotExist) \<and>
   Get ex_fs ''/a/b/f.txt'' = Some (ex_entry ''f.txt'' 3 0x1B6) \<and> isExclusive (O_RDWR OR O_CREATE OR O_EXCL) \<and>
   OpenFile 9 ex_fs ''/a/b/f.txt'' (O_RDWR OR O_CREATE OR O_EXCL) 0x1B6 = Some (ex_fs, Inl ErrExist) \<and>
   resolves ex_fs ''/dlink'' ''/a/b'' (ex_entry ''b'' 2 (0x1ED OR ModeDir)) \<and>
   IsDir (mode (ex_entry ''b'' 2 (0x1ED OR ModeDir))) \<and> \<not> isExclusive O_RDONLY \<and>
   OpenFile 9 ex_fs ''/dlink'' O_RDONLY 0 = Some (ex_fs, Inl (CannotOpenDirectory ''/a/b''))"
proof -
  have a: "\<not> isCreate O_RDONLY" "\<not> isExclusive O_RDONLY"
    by (simp_all add: isCreate_def isExclusive_def O_RDONLY_def)
  have b: "isExclusive (O_RDWR OR O_CREATE OR O_EXCL)"
    by (simp add: isExclusive_def O_RDWR_def O_CREATE_def O_EXCL_def)
  have 1: "OpenFile 9 ex_fs ''/nope'' O_RDONLY 0 = Some (ex_fs, Inl ErrNotExist)"
    using OpenFile_failures [of ex_fs "''/nope''" O_RDONLY 9 0] ex_Get_none a by blast
  have 2: "OpenFile 9 ex_fs ''/a/b/f.txt'' (O_RDWR OR O_CREATE OR O_EXCL) 0x1B6 = Some (ex_fs, Inl ErrExist)"
    using OpenFile_failures [of ex_fs "''/a/b/f.txt''" "O_RDWR OR O_CREATE OR O_EXCL" 9 "0x1B6"] ex_Get_file b by blast
  have "OpenFile 9 ex_fs ''/dlink'' O_RDONLY 0 =
      Some (ex_fs, Inl (if isExclusive O_RDONLY then ErrExist else CannotOpenDirectory ''/a/b''))"
    using OpenFile_failures [of ex_fs "''/dlink''" O_RDONLY 9 0] ex_resolves_dlink ex_dir_mode(2)
    by blast
  with a(2) have 3:
    "OpenFile 9 ex_fs ''/dlink'' O_RDONLY 0 = Some (ex_fs, Inl (CannotOpenDirectory ''/a/b''))"
    by simp
  from a b 1 2 3 ex_Get_none ex_Get_file ex_resolves_dlink ex_dir_mode(2) show ?thesis by blast
qed

subsection \<open>Stat\<close>

lemma Stat_resolves:
  assumes "resolves m p p' e"
  shows "Stat m p = Some (Inr ((file_Stat (store m) e)\<lparr>fi_name := Base p\<rparr>))"
  using assms
proof (induction rule: resolves.induct)
  case (resolves_here m p f)
  then show ?case
    by (subst Stat.simps) (simp add: resolveLink_not_link)
next
  case (resolves_link m p f p' e)
  then show ?case
    by (subst Stat.simps) (simp add: resolveLink_link)
qed

text \<open>
  C4, as the code has it.  When the chain of links from a path ends at an Entry that
  is no link (the path's own Entry when that is no link), \<open>Stat\<close> returns without an
  error; the name of the result is the base name of the path asked for, and its size,
  mode and mtime are those of the Entry at the end of the chain.
\<close>

theorem Stat_follows_links_keeps_name:
  assumes "resolves m path p' e"
  shows "\<exists>fi. Stat m path = Some (Inr fi) \<and>
     fi_name fi = Base path \<and>
     fi_size fi = length (store m (content e)) \<and>
     fi_mode fi = mode e \<and>
     fi_mtime fi = mtime e"
  using Stat_resolves [OF assms] by (simp add: file_Stat_def content_Len_def)

text \<open>The scenario of spec 8: \<open>/link\<close> points to the five-byte file
  \<open>/a/b/f.txt\<close>; \<open>Stat\<close> reports the size 5 under the name \<open>link\<close>, and
  \<open>Lstat\<close> the length of the target string.\<close>

theorem Stat_follows_links_keeps_name_witness:
  "resolves ex_fs ''/link'' ''/a/b/f.txt'' (ex_entry ''f.txt'' 3 0x1B6) \<and>
   Stat ex_fs ''/link'' = Some (Inr \<lparr>fi_name = ''link'', fi_size = 5, fi_mode = 0x1B6, fi_mtime = 7\<rparr>) \<and>
   Lstat ex_fs ''/link'' =
     Inr \<lparr>fi_name = ''link'', fi_size = 10, fi_mode = 0x1FF OR ModeSymlink, fi_mtime = 7\<rparr>"
proof -
  from Stat_follows_links_keeps_name [OF ex_resolves_link]
  obtain fi where "Stat ex_fs ''/link'' = Some (Inr fi)" "fi_name fi = Base ''/link''"
    "fi_size fi = length (store ex_fs (content (ex_entry ''f.txt'' 3 0x1B6)))"
    "fi_mode fi = mode (ex_entry ''f.txt'' 3 0x1B6)" "fi_mtime fi = mtime (ex_entry ''f.txt'' 3 0x1B6)"
    by blast
  then have "Stat ex_fs ''/link'' = Some (Inr \<lparr>fi_name = ''link'', fi_size = 5, fi_mode = 0x1B6, fi_mtime = 7\<rparr>)"
    by (cases fi) (simp add: Base_def ex_entry_def ex_fs_def bytes_of_string_def)
  moreover have "Lstat ex_fs ''/link'' =
     Inr \<lparr>fi_name = ''link'', fi_size = 10, fi_mode = 0x1FF OR ModeSymlink, fi_mtime = 7\<rparr>"
    by (simp add: Lstat_def ex_Get_link file_Stat_def content_Len_def) (simp add: ex_entry_def ex_fs_def bytes_of_string_def)
  ultimately show ?thesis using ex_resolves_link by blast
qed

text \<open>That the path's Entry exists, and is a link to another existing Entry, is not
  enough: \<open>/l2\<close> points to the existing link \<open>/l\<close>, whose target is missing, and
  \<open>Stat\<close> of \<open>/l2\<close> returns the not-exist error.\<close>

theorem Stat_dangling_chain_fails:
  "Get ex_dangling ''/l2'' = Some (ex_entry ''l2'' 1 (0x1FF OR ModeSymlink)) \<and>
   isSymlink (mode (ex_entry ''l2'' 1 (0x1FF OR ModeSymlink))) \<and>
   resolveLink (store ex_dangling) ''/l2'' (ex_entry ''l2'' 1 (0x1FF OR ModeSymlink)) = (''/l'', True) \<and>
   Get ex_dangling ''/l'' = Some (ex_entry ''l'' 0 (0x1FF OR ModeSymlink)) \<and>
   Stat ex_dangling ''/l2'' = Some (Inl ErrNotExist)"
  by code_simp

text \<open>On two links that point to each other \<open>Stat\<close> does not return.\<close>

lemma ex_cycle_bodies:
  "Get ex_cycle ''/a'' = Some (ex_entry ''a'' 2 (0x1FF OR ModeSymlink))"
  "Get ex_cycle ''/b'' = Some (ex_entry ''b'' 3 (0x1FF OR ModeSymlink))"
  "resolveLink (store ex_cycle) ''/a'' (ex_entry ''a'' 2 (0x1FF OR ModeSymlink)) = (''/b'', True)"
  "resolveLink (store ex_cycle) ''/b'' (ex_entry ''b'' 3 (0x1FF OR ModeSymlink)) = (''/a'', True)"
  by code_simp+

lemma Stat_cycle_no_result:
  assumes "Stat m p = Some y"
  shows "\<not> (m = ex_cycle \<and> (p = ''/a'' \<or> p = ''/b''))"
proof (rule Stat.raw_induct
    [where P = "\<lambda>m p y. \<not> (m = ex_cycle \<and> (p = ''/a'' \<or> p = ''/b''))", OF _ assms],
    goal_cases)
  case (1 S m p y)
  note IH = "1"(1) and body = "1"(2)
  show ?case
  proof
    assume a: "m = ex_cycle \<and> (p = ''/a'' \<or> p = ''/b'')"
    then consider "p = ''/a''" | "p = ''/b''" by blast
    then show False
    proof cases
      case 1
      with a body obtain r where "S ex_cycle ''/b'' = Some r"
        by (auto simp: ex_cycle_bodies split: Option.bind_splits)
      with IH show False by blast
    next
      case 2
      with a body obtain r where "S ex_cycle ''/a'' = Some r"
        by (auto simp: ex_cycle_bodies split: Option.bind_splits)
      with IH show False by blast
    qed
  qed
qed

lemma Stat_cycle_never_returns: "Stat ex_cycle ''/a'' = None"
  using Stat_cycle_no_result [of ex_cycle "''/a''"] by (cases "Stat ex_cycle ''/a''") auto

text \<open>Conversely, \<open>Stat\<close> returns a result without an error only where the chain of
  links ends at an Entry.\<close>

lemma resolveLink_snd_iff: "snd (resolveLink h p f) \<longleftrightarrow> isSymlink (mode f)"
  by (simp add: resolveLink_def Let_def)

lemma Stat_result_resolves:
  assumes "Stat m p = Some y"
  shows "\<forall>fi. y = Inr fi \<longrightarrow> (\<exists>p' e. resolves m p p' e)"
proof (rule Stat.raw_induct
    [where P = "\<lambda>m p y. \<forall>fi. y = Inr fi \<longrightarrow> (\<exists>p' e. resolves m p p' e)", OF _ assms],
    goal_cases)
  case (1 S m p y)
  note IH = "1"(1) and body = "1"(2)
  show ?case
  proof (intro allI impI)
    fix fi assume y: "y = Inr fi"
    from body y obtain f where g: "Get m p = Some f"
      by (cases "Get m p") auto
    show "\<exists>p' e. resolves m p p' e"
    proof (cases "isSymlink (mode f)")
      case False
      with g show ?thesis by (blast intro: resolves_here)
    next
      case True
      with body g y obtain r where r: "S m (fst (resolveLink (store m) p f)) = Some r"
        and "(case r of Inl err \<Rightarrow> Some (Inl err)
              | Inr fi' \<Rightarrow> Some (Inr (fi'\<lparr>fi_name := Base p\<rparr>))) = Some (Inr fi)"
        by (auto simp: resolveLink_snd_iff split: Option.bind_splits)
      then obtain fi' where "r = Inr fi'" by (cases r) auto
      with IH [OF r] obtain p' e where "resolves m (fst (resolveLink (store m) p f)) p' e"
        by blast
      with g True show ?thesis by (blast intro: resolves_link)
    qed
  qed
qed

subsection \<open>ReadDir\<close>





text \<open>Such a tree is what \<open>Create("/f")\<close> and then \<open>Create("/f/x")\<close> make of the
  empty filesystem.\<close>

lemma Create_under_regular_file:
  "(case Create 1 empty_fs ''/f'' of
      Some (m1, Inr h1) \<Rightarrow>
        (case Create 2 m1 ''/f/x'' of
           Some (m2, Inr h2) \<Rightarrow>
             map_option mode (Get m2 ''/f'') = Some 0x1B6 \<and>
             ReadDir m2 ''/f'' =
               Some (Inr [\<lparr>fi_name = ''x'', fi_size = 0, fi_mode = 0x1B6, fi_mtime = 2\<rparr>])
         | _ \<Rightarrow> False)
    | _ \<Rightarrow> False)"
  by code_simp

subsection \<open>Symlink and Readlink\<close>

lemma Get_alloc_entry_other:
  "Get m p = Some f \<Longrightarrow> Get m d = None \<Longrightarrow> Get (fst (alloc_entry now m d md flg)) p = Some f"
  by (auto simp: alloc_entry_def Get_def Let_def)

lemma Get_mkdirs:
  "Get m p = Some f \<Longrightarrow> Get (mkdirs now md m ds) p = Some f"
proof (induction ds arbitrary: m)
  case Nil
  then show ?case by simp
next
  case (Cons d ds)
  show ?case
  proof (cases "Get m d")
    case None
    with Cons.prems have "Get (fst (alloc_entry now m d md 0)) p = Some f"
      by (simp add: Get_alloc_entry_other)
    then show ?thesis using None by (simp add: Cons.IH)
  next
    case (Some e)
    then show ?thesis using Cons by simp
  qed
qed

lemma symlink_flags:
  "isCreate (O_WRONLY OR O_CREATE OR O_TRUNC)"
  "isTruncate (O_WRONLY OR O_CREATE OR O_TRUNC)"
  "\<not> isAppend (O_WRONLY OR O_CREATE OR O_TRUNC)"
  "\<not> isExclusive (O_WRONLY OR O_CREATE OR O_TRUNC)"
  "isWriteOnly (O_WRONLY OR O_CREATE OR O_TRUNC)"
  by (simp_all add: isCreate_def isTruncate_def isAppend_def isExclusive_def isWriteOnly_def
      O_WRONLY_def O_CREATE_def O_TRUNC_def O_APPEND_def O_EXCL_def)

lemma symlink_mode:
  "isSymlink (0x1FF OR ModeSymlink)" "\<not> IsDir (0x1FF OR ModeSymlink)"
  by (simp_all add: isSymlink_def IsDir_def ModeSymlink_def ModeDir_def)

lemma content_WriteAt_empty: "content_WriteAt [] p 0 = (p, length p, None)"
  by (simp add: content_WriteAt_def)

lemma New_absent:
  assumes "Get m p = None"
  shows "\<exists>m'. New now m p md flg =
      (m', Inr \<lparr>name = Base p, content = fresh m, position = 0, flag = flg,
               mode = md, mtime = now, isClosed = False\<rparr>) \<and>
     Get m' p = Some \<lparr>name = Base p, content = fresh m, position = 0, flag = flg,
               mode = md, mtime = now, isClosed = False\<rparr>"
proof -
  let ?f = "\<lparr>name = Base p, content = fresh m, position = 0, flag = flg,
               mode = md, mtime = now, isClosed = False\<rparr>"
  let ?m1 = "fst (alloc_entry now m p md flg)"
  have a: "alloc_entry now m p md flg = (?m1, ?f)" by (simp add: alloc_entry_def Let_def)
  have g: "Get ?m1 p = Some ?f" by (simp add: alloc_entry_def Let_def Get_def)
  have "New now m p md flg = (mkdirs now ((md AND ModePerm) OR ModeDir) ?m1 (ancestors p), Inr ?f)"
    using assms by (simp add: New_def alloc_entry_def Let_def)
  moreover have "Get (mkdirs now ((md AND ModePerm) OR ModeDir) ?m1 (ancestors p)) p = Some ?f"
    using g by (rule Get_mkdirs)
  ultimately show ?thesis by blast
qed

lemma WriteFile_absent:
  assumes "Get m p = None" and "\<not> IsDir perm"
  shows "\<exists>m' f. WriteFile now m p data perm = Some (m', None) \<and>
     Get m' p = Some f \<and> mode f = perm \<and> store m' (content f) = data"
proof -
  let ?flg = "O_WRONLY OR O_CREATE OR O_TRUNC"
  let ?f = "\<lparr>name = Base p, content = fresh m, position = 0, flag = ?flg,
               mode = perm, mtime = now, isClosed = False\<rparr>"
  from New_absent [OF assms(1), of now perm ?flg]
  obtain m' where n: "New now m p perm ?flg = (m', Inr ?f)" and g: "Get m' p = Some ?f"
    by blast
  let ?h = "content_Truncate (store m') (fresh m)"
  let ?new = "\<lparr>name = p, content = fresh m, position = 0, flag = ?flg,
               mode = perm, mtime = now, isClosed = False\<rparr>"
  have d: "Duplicate now (store m') ?f p perm ?flg = (?h, ?new)"
    by (simp add: Duplicate_def Let_def symlink_flags)
  have oe: "open_entry now m' ?f p ?flg perm = (m'\<lparr>store := ?h\<rparr>, Inr ?new)"
    using assms(2) by (simp add: open_entry_def d)
  have o: "OpenFile now m p ?flg perm = Some (m'\<lparr>store := ?h\<rparr>, Inr ?new)"
    by (subst OpenFile.simps) (simp add: assms(1) symlink_flags n oe)
  have hc: "?h (fresh m) = []" by (simp add: content_Truncate_def)
  have w: "Write now ?h ?new data =
      (?h(fresh m := data), ?new\<lparr>position := 0 + of_nat (length data), mtime := now\<rparr>,
       length data, None)"
    by (simp add: Write_def WriteAt_def symlink_flags hc content_WriteAt_empty)
  let ?m2 = "m'\<lparr>store := ?h(fresh m := data)\<rparr>"
  have "WriteFile now m p data perm = Some (?m2, None)"
    by (simp add: WriteFile_def o w Close_def)
  moreover have "Get ?m2 p = Some ?f" using g by (simp add: Get_def)
  moreover have "mode ?f = perm" "store ?m2 (content ?f) = data" by simp_all
  ultimately show ?thesis by blast
qed

text \<open>Where the link path has no Entry, \<open>Symlink\<close> returns the nil error and
  \<open>Readlink\<close> then returns the target, byte for byte; where \<open>Stat\<close> of the link
  path succeeds, \<open>Symlink\<close> returns the already-exists error and the filesystem is
  as before.\<close>

lemma Symlink_Readlink_roundtrip:
  "(Get m link = None \<longrightarrow>
      (\<exists>m'. Symlink now m target link = Some (m', None) \<and>
         Readlink m' link = (target, None))) \<and>
   (\<forall>fi. Stat m link = Some (Inr fi) \<longrightarrow>
      Symlink now m target link = Some (m, Some ErrExist))"
proof (intro conjI allI impI)
  assume a: "Get m link = None"
  then have s: "Stat m link = Some (Inl ErrNotExist)"
    by (subst Stat.simps) simp
  from WriteFile_absent [OF a symlink_mode(2), of now "bytes_of_string target"]
  obtain m' f where w: "WriteFile now m link (bytes_of_string target) (0x1FF OR ModeSymlink) = Some (m', None)"
    and g: "Get m' link = Some f" and md: "mode f = 0x1FF OR ModeSymlink"
    and c: "store m' (content f) = bytes_of_string target"
    by blast
  have "Symlink now m target link = Some (m', None)"
    by (simp add: Symlink_def s w)
  moreover have "Readlink m' link = (target, None)"
    by (simp add: Readlink_def g md symlink_mode c string_of_bytes_of_string)
  ultimately show "\<exists>m'. Symlink now m target link = Some (m', None) \<and>
         Readlink m' link = (target, None)" by blast
next
  fix fi assume "Stat m link = Some (Inr fi)"
  then show "Symlink now m target link = Some (m, Some ErrExist)"
    by (simp add: Symlink_def)
qed

text \<open>
  C5.  On the empty filesystem \<open>Symlink("/missing", "/l")\<close> makes a dangling link:
  \<open>Stat("/l")\<close> fails with the not-exist error.  \<open>Symlink("/t", "/l")\<close> then
  returns the nil error, but \<open>util.WriteFile\<close> opens \<open>/l\<close> through the link, so
  the new link is made at \<open>/missing\<close>, and \<open>Readlink("/l")\<close> still returns
  \<open>/missing\<close>, where the claim has it return \<open>/t\<close>.
\<close>

theorem Symlink_over_dangling_link:
  "(case Symlink 1 empty_fs ''/missing'' ''/l'' of
      Some (m1, None) \<Rightarrow>
        Readlink m1 ''/l'' = (''/missing'', None) \<and>
        Stat m1 ''/l'' = Some (Inl ErrNotExist) \<and>
        (case Symlink 2 m1 ''/t'' ''/l'' of
           Some (m2, None) \<Rightarrow>
             Readlink m2 ''/l'' = (''/missing'', None) \<and>
             Readlink m2 ''/missing'' = (''/t'', None)
         | _ \<Rightarrow> False)
    | _ \<Rightarrow> False)"
  by code_simp

section \<open>The platform metadata\<close>

text \<open>
  C9, as the code has it.  For an \<open>os.FileInfo\<close> whose \<open>Sys()\<close> is a pointer to a
  native structure the call returns a result that is present: its link count is the
  native one reduced modulo \<open>2^32\<close> (the conversion to \<open>uint32\<close>), hence equal to it
  when that is below \<open>2^32\<close>; uid, gid and inode are the native fields, major and minor
  number are decoded from the native device number, and the two times are the
  \<open>time.Unix\<close> of the native seconds and nanoseconds.  Where \<open>Sys()\<close> is of any other
  type the call returns the absent result.  The function is a value of its argument
  alone.
\<close>

theorem getOSFileInfo_fields:
  "(\<forall>s. os_Sys info = StatPtr (Some s) \<longrightarrow>
      (\<exists>fi. getOSFileInfo (Some info) = Returns (Some fi) \<and>
         unat (Nlink fi) = unat (st_Nlink s) mod 2 ^ 32 \<and>
         (unat (st_Nlink s) < 2 ^ 32 \<longrightarrow> unat (Nlink fi) = unat (st_Nlink s)) \<and>
         UID fi = st_Uid s \<and>
         GID fi = st_Gid s \<and>
         Major fi = unix_Major (st_Rdev s) \<and>
         Minor fi = unix_Minor (st_Rdev s) \<and>
         Fileid fi = st_Ino s \<and>
         Atime fi = time_Unix (Sec (st_Atim s)) (Nsec (st_Atim s)) \<and>
         Ctime fi = time_Unix (Sec (st_Ctim s)) (Nsec (st_Ctim s)))) \<and>
   (os_Sys info = OtherSys \<longrightarrow> getOSFileInfo (Some info) = Returns None)"
proof -
  have m: "unat (ucast w :: 32 word) = unat w mod 2 ^ 32" for w :: "64 word"
    by (simp add: unsigned_ucast_eq take_bit_eq_mod)
  show ?thesis
    by (auto simp: getOSFileInfo_def m)
qed

text \<open>The block device with a link count of 2, and an \<open>os.FileInfo\<close> without a native
  structure.\<close>

theorem getOSFileInfo_fields_witness:
  "os_Sys (ex_info\<lparr>os_Sys := StatPtr (Some ex_stat_small)\<rparr>) = StatPtr (Some ex_stat_small) \<and>
   unat (st_Nlink ex_stat_small) < 2 ^ 32 \<and>
   (\<exists>fi. getOSFileInfo (Some (ex_info\<lparr>os_Sys := StatPtr (Some ex_stat_small)\<rparr>)) =
        Returns (Some fi) \<and>
      unat (Nlink fi) = 2 \<and> UID fi = 1000 \<and> GID fi = 100 \<and> Major fi = 8 \<and> Minor fi = 1 \<and>
      Fileid fi = 42 \<and> Atime fi = time_Unix 1700000000 123456789 \<and>
      Ctime fi = time_Unix 1700000001 987654321) \<and>
   os_Sys (ex_info\<lparr>os_Sys := OtherSys\<rparr>) = OtherSys \<and>
   getOSFileInfo (Some (ex_info\<lparr>os_Sys := OtherSys\<rparr>)) = Returns None"
proof -
  let ?i = "ex_info\<lparr>os_Sys := StatPtr (Some ex_stat_small)\<rparr>"
  have a: "os_Sys ?i = StatPtr (Some ex_stat_small)" by simp
  have b: "unat (st_Nlink ex_stat_small) < 2 ^ 32" by (simp add: ex_stat_small_def)
  have c: "os_Sys (ex_info\<lparr>os_Sys := OtherSys\<rparr>) = OtherSys" by simp
  from getOSFileInfo_fields [of ?i] a b
  obtain fi where fi: "getOSFileInfo (Some ?i) = Returns (Some fi)"
    "unat (Nlink fi) = unat (st_Nlink ex_stat_small)"
    "UID fi = st_Uid ex_stat_small" "GID fi = st_Gid ex_stat_small"
    "Major fi = unix_Major (st_Rdev ex_stat_small)" "Minor fi = unix_Minor (st_Rdev ex_stat_small)"
    "Fileid fi = st_Ino ex_stat_small"
    "Atime fi = time_Unix (Sec (st_Atim ex_stat_small)) (Nsec (st_Atim ex_stat_small))"
    "Ctime fi = time_Unix (Sec (st_Ctim ex_stat_small)) (Nsec (st_Ctim ex_stat_small))"
    by blast
  have d: "getOSFileInfo (Some (ex_info\<lparr>os_Sys := OtherSys\<rparr>)) = Returns None"
    using getOSFileInfo_fields [of "ex_info\<lparr>os_Sys := OtherSys\<rparr>"] c by blast
  from fi have "unat (Nlink fi) = 2 \<and> UID fi = 1000 \<and> GID fi = 100 \<and> Major fi = 8 \<and> Minor fi = 1 \<and>
      Fileid fi = 42 \<and> Atime fi = time_Unix 1700000000 123456789 \<and>
      Ctime fi = time_Unix 1700000001 987654321"
    by (simp add: ex_stat_small_def ex_stat_def unix_Major_def unix_Minor_def)
  with fi(1) a b c d show ?thesis by blast
qed

text \<open>On the nil interface value and on a nil pointer to the native structure the call
  panics.\<close>

lemma getOSFileInfo_panics:
  "getOSFileInfo None = Panics"
  "os_Sys info = StatPtr None \<Longrightarrow> getOSFileInfo (Some info) = Panics"
  by (simp_all add: getOSFileInfo_def)

text \<open>The equality of the link counts fails for a native count of \<open>2^32 + 1\<close>, where
  the result's count is 1; and with the nil pointer to the native structure the call
  neither returns a structure nor the absent result.\<close>

theorem getOSFileInfo_truncates_and_panics:
  "os_Sys ex_info = StatPtr (Some ex_stat) \<and>
   getOSFileInfo (Some ex_info) =
     Returns (Some \<lparr>Nlink = 1, UID = 1000, GID = 100, Major = 8, Minor = 1, Fileid = 42,
           Atime = time_Unix 1700000000 123456789, Ctime = time_Unix 1700000001 987654321\<rparr>) \<and>
   unat (st_Nlink ex_stat) = 4294967297 \<and>
   unat (1 :: 32 word) \<noteq> unat (st_Nlink ex_stat) \<and>
   os_Sys (ex_info\<lparr>os_Sys := StatPtr None\<rparr>) = StatPtr None \<and>
   getOSFileInfo (Some (ex_info\<lparr>os_Sys := StatPtr None\<rparr>)) = Panics"
  by (simp add: getOSFileInfo_def ex_info_def ex_stat_def unix_Major_def unix_Minor_def)

end
